theory Spec2Isabelle
  imports Main "HOL-Library.Sublist"
begin

section \<open>JavaScript strings, array lookups and global regular-expression replacement\<close>

text \<open>
  Strings are lists of 8-bit characters, so the two line terminators of JavaScript that
  fit in one character are the line feed and the carriage return. A regular expression
  used with the \<open>g\<close> flag is a matcher: given the text already scanned (most recent
  character first) and the text from the current position on, it tells how long the match
  starting at this position is, if there is one.
\<close>

datatype error = TypeError

type_synonym matcher = "string \<Rightarrow> string \<Rightarrow> nat option"

datatype piece = Plain char | Matched string

definition is_line_terminator :: "char \<Rightarrow> bool" where
  "is_line_terminator c \<longleftrightarrow> c = CHR 0x0A \<or> c = CHR 0x0D"

definition is_digit :: "char \<Rightarrow> bool" where
  "is_digit c \<longleftrightarrow> c \<in> set ''0123456789''"

definition digit_char :: "nat \<Rightarrow> char" where
  "digit_char d = ''0123456789'' ! d"

text \<open>The decimal text of an array index, as a template literal prints a number.\<close>

fun show_nat :: "nat \<Rightarrow> string" where
  "show_nat n = (if n < 10 then [digit_char n] else show_nat (n div 10) @ [digit_char (n mod 10)])"

declare show_nat.simps [simp del]

text \<open>
  \<open>xs[key]\<close> for an array and a string key: the element exists exactly when the key is
  the canonical decimal text of an index below the length (so \<open>"01"\<close> names nothing).
\<close>

definition js_index :: "'a list \<Rightarrow> string \<Rightarrow> 'a option" where
  "js_index xs key = map_option (\<lambda>i. xs ! i) (find (\<lambda>i. show_nat i = key) [0..<length xs])"

definition lower :: "char \<Rightarrow> char" where
  "lower c = (case map_of (zip ''ABCDEFGHIJKLMNOPQRSTUVWXYZ'' ''abcdefghijklmnopqrstuvwxyz'') c of
                Some l \<Rightarrow> l | None \<Rightarrow> c)"

definition ci_prefix :: "string \<Rightarrow> string \<Rightarrow> bool" where
  "ci_prefix p s \<longleftrightarrow> prefix (map lower p) (map lower s)"

text \<open>
  The scan of \<open>String.prototype.replace\<close> with a global regular expression: matches are
  found left to right and do not overlap; after an empty match the scan copies one
  character and goes on, and a match is also tried at the end of the text.
\<close>

fun scan :: "matcher \<Rightarrow> string \<Rightarrow> string \<Rightarrow> piece list" where
  "scan m seen [] = (case m seen [] of None \<Rightarrow> [] | Some n \<Rightarrow> [Matched []])"
| "scan m seen (c # cs) =
     (case m seen (c # cs) of
        None \<Rightarrow> Plain c # scan m (c # seen) cs
      | Some 0 \<Rightarrow> Matched [] # Plain c # scan m (c # seen) cs
      | Some (Suc n) \<Rightarrow>
          Matched (c # take n cs) # scan m (rev (c # take n cs) @ seen) (drop n cs))"

fun render_piece :: "(string \<Rightarrow> string) \<Rightarrow> piece \<Rightarrow> string" where
  "render_piece f (Plain c) = [c]"
| "render_piece f (Matched x) = f x"

text \<open>\<open>content.replace(pattern, f)\<close> with a callback that cannot throw.\<close>

definition replace_fn :: "matcher \<Rightarrow> (string \<Rightarrow> string) \<Rightarrow> string \<Rightarrow> string" where
  "replace_fn m f s = concat (map (render_piece f) (scan m [] s))"

text \<open>
  The same with a callback that may throw: the callbacks run in scan order and the first
  exception ends the replacement.
\<close>

fun replace_pieces :: "(string \<Rightarrow> error + string) \<Rightarrow> piece list \<Rightarrow> error + string" where
  "replace_pieces f [] = Inr []"
| "replace_pieces f (Plain c # ps) =
     (case replace_pieces f ps of Inl e \<Rightarrow> Inl e | Inr t \<Rightarrow> Inr (c # t))"
| "replace_pieces f (Matched x # ps) =
     (case f x of
        Inl e \<Rightarrow> Inl e
      | Inr y \<Rightarrow> (case replace_pieces f ps of Inl e \<Rightarrow> Inl e | Inr t \<Rightarrow> Inr (y @ t)))"

definition replace_try :: "matcher \<Rightarrow> (string \<Rightarrow> error + string) \<Rightarrow> string \<Rightarrow> error + string" where
  "replace_try m f s = replace_pieces f (scan m [] s)"

text \<open>A regular expression that is a literal text.\<close>

definition lit :: "string \<Rightarrow> matcher" where
  "lit p seen rest = (if prefix p rest then Some (length p) else None)"

text \<open>
  A lazy run \<open>X*?\<close> followed by a literal: the least number of characters, each one
  allowed by \<open>ok\<close>, after which \<open>stop\<close> holds.
\<close>

fun lazy_until :: "(char \<Rightarrow> bool) \<Rightarrow> (string \<Rightarrow> bool) \<Rightarrow> string \<Rightarrow> nat option" where
  "lazy_until ok stop [] = (if stop [] then Some 0 else None)"
| "lazy_until ok stop (c # cs) =
     (if stop (c # cs) then Some 0
      else if ok c then map_option Suc (lazy_until ok stop cs) else None)"

section \<open>The placeholder protector (pluck and insert)\<close>

text \<open>
  A placeholder token is the prefix, an underscore and the decimal index of the region.
  Export.js builds the same token pattern itself when it rewrites nested code blocks:
  \<open>new RegExp(`${MULTI_LINE_CODE_PLACEHOLDER}_(\\d+)`, 'g')\<close>.
\<close>

definition placeholder_token :: "string \<Rightarrow> nat \<Rightarrow> string" where
  "placeholder_token placeholder i = placeholder @ ''_'' @ show_nat i"

definition token_pattern :: "string \<Rightarrow> matcher" where
  "token_pattern placeholder seen rest =
     (if prefix (placeholder @ ''_'') rest
      then (case takeWhile is_digit (drop (length placeholder + 1) rest) of
              [] \<Rightarrow> None
            | d # ds \<Rightarrow> Some (length placeholder + 1 + length (d # ds)))
      else None)"

text \<open>The capture group \<open>(\\d+)\<close> of a matched token.\<close>

definition token_index :: "string \<Rightarrow> string \<Rightarrow> string" where
  "token_index placeholder tok = drop (length placeholder + 1) tok"

fun pluck_pieces :: "string \<Rightarrow> nat \<Rightarrow> piece list \<Rightarrow> string \<times> string list" where
  "pluck_pieces placeholder i [] = ([], [])"
| "pluck_pieces placeholder i (Plain c # ps) =
     (case pluck_pieces placeholder i ps of (t, matches) \<Rightarrow> (c # t, matches))"
| "pluck_pieces placeholder i (Matched x # ps) =
     (case pluck_pieces placeholder (Suc i) ps of
        (t, matches) \<Rightarrow> (placeholder_token placeholder i @ t, x # matches))"

text \<open>
  Modelled from the spec: \<open>pluck\<close> lives in \<open>_utils/pluck-insert.js\<close>, which is not among
  the sources. Spec 4.1: it scans the text for all non-overlapping matches of the pattern,
  left to right; each match is appended to the region list and replaced in the text by a
  placeholder token holding the prefix and the region's index in the list. The callers in
  Export.js always pass a fresh empty list, which is the list returned here.
\<close>

definition pluck :: "matcher \<Rightarrow> string \<Rightarrow> string \<Rightarrow> string \<times> string list" where
  "pluck pattern placeholder content = pluck_pieces placeholder 0 (scan pattern [] content)"

text \<open>
  Modelled from the spec: \<open>insert\<close> lives in \<open>_utils/pluck-insert.js\<close>, which is not among
  the sources. Spec 4.1: it replaces every placeholder token of the prefix with
  \<open>regionList[index]\<close>. A token whose index names no region is replaced by the text
  JavaScript gives a missing array element, \<open>undefined\<close>.
\<close>

definition restore :: "string list \<Rightarrow> string \<Rightarrow> string \<Rightarrow> string" where
  "restore matches placeholder tok =
     (case js_index matches (token_index placeholder tok) of
        Some x \<Rightarrow> x | None \<Rightarrow> ''undefined'')"

definition insert_regions :: "string list \<Rightarrow> string \<Rightarrow> string \<Rightarrow> string" where
  "insert_regions matches placeholder content =
     replace_fn (token_pattern placeholder) (restore matches placeholder) content"

section \<open>The patterns of Export.js\<close>

text \<open>
  Modelled from the spec: the constants \<open>MULTI_LINE_CODE_PATTERN\<close>,
  \<open>MULTI_LINE_CODE_PLACEHOLDER\<close>, \<open>INLINE_CODE_PATTERN\<close> and \<open>INLINE_CODE_PLACEHOLDER\<close>
  are imported from \<open>_utils/pluck-insert.js\<close>, which is not among the sources. Spec 4.2
  calls them the fenced (multi-line) code regions with prefix A and the inline code spans
  with prefix B. A fenced region opens with three backticks and the rest of that line and
  runs to the next three backticks; an inline span runs from a backtick to the next
  backtick. The prefixes are named after their constants, as \<open>RAW_PLACEHOLDER\<close> is.
\<close>

definition fence :: string where
  \<open>fence = ''```''\<close>

definition MULTI_LINE_CODE_PATTERN :: matcher where
  "MULTI_LINE_CODE_PATTERN seen rest =
     (if prefix fence rest
      then (case lazy_until (\<lambda>c. \<not> is_line_terminator c) (prefix [CHR 0x0A]) (drop 3 rest) of
              None \<Rightarrow> None
            | Some k \<Rightarrow>
                (case lazy_until (\<lambda>c. True) (prefix fence) (drop (3 + k + 1) rest) of
                   None \<Rightarrow> None
                 | Some j \<Rightarrow> Some (3 + k + 1 + j + 3)))
      else None)"

definition MULTI_LINE_CODE_PLACEHOLDER :: string where
  "MULTI_LINE_CODE_PLACEHOLDER = ''MULTI_LINE_CODE_PLACEHOLDER''"

definition INLINE_CODE_PATTERN :: matcher where
  "INLINE_CODE_PATTERN seen rest =
     (case rest of
        [] \<Rightarrow> None
      | c # cs \<Rightarrow>
          if c = CHR 0x60
          then (let body = takeWhile (\<lambda>x. x \<noteq> CHR 0x60) cs in
                if length body < length cs then Some (length body + 2) else None)
          else None)"

definition INLINE_CODE_PLACEHOLDER :: string where
  "INLINE_CODE_PLACEHOLDER = ''INLINE_CODE_PLACEHOLDER''"

text \<open>\<open>/{% raw %}(.*?){% endraw %}/gm\<close>: the dot does not cross a line terminator.\<close>

definition RAW_SHORTCODE_PATTERN :: matcher where
  "RAW_SHORTCODE_PATTERN seen rest =
     (if prefix ''{% raw %}'' rest
      then (case lazy_until (\<lambda>c. \<not> is_line_terminator c) (prefix ''{% endraw %}'') (drop 9 rest) of
              None \<Rightarrow> None
            | Some k \<Rightarrow> Some (9 + k + 12))
      else None)"

definition RAW_PLACEHOLDER :: string where
  "RAW_PLACEHOLDER = ''RAW_PLACEHOLDER''"

text \<open>
  \<open>new RegExp('<div( .*)?>[\\s\\S]*?<\\/div>', 'gi')\<close>. After \<open><div\<close> (in any letter
  case) comes either \<open>>\<close> at once, or a space and a greedy run of characters of the same
  line up to a \<open>>\<close>; the run is as long as it can be while a closing tag still follows,
  so the candidates for that \<open>>\<close> are tried from the rightmost one of the line to the
  leftmost. The lazy body then ends at the first closing tag.
\<close>

definition find_close :: "string \<Rightarrow> nat option" where
  "find_close s = lazy_until (\<lambda>c. True) (ci_prefix ''</div>'') s"

fun try_open_ends :: "string \<Rightarrow> nat list \<Rightarrow> nat option" where
  "try_open_ends r [] = None"
| "try_open_ends r (j # js) =
     (case find_close (drop (Suc j) r) of
        Some k \<Rightarrow> Some (4 + 1 + j + 1 + k + 6)
      | None \<Rightarrow> try_open_ends r js)"

definition NESTED_MULTI_LINE_CODE_PATTERN :: matcher where
  "NESTED_MULTI_LINE_CODE_PATTERN seen rest =
     (if ci_prefix ''<div'' rest
      then (case drop 4 rest of
              [] \<Rightarrow> None
            | c # r \<Rightarrow>
                if c = CHR ''>'' then map_option (\<lambda>k. 4 + 1 + k + 6) (find_close r)
                else if c = CHR '' '' then
                  (let line = takeWhile (\<lambda>x. \<not> is_line_terminator x) r in
                   try_open_ends r (rev (filter (\<lambda>j. line ! j = CHR ''>'') [0..<length line])))
                else None)
      else None)"

text \<open>\<open>/<figure class="float-(left|right)">/g\<close>\<close>

definition FLOAT_FIGURE_PATTERN :: matcher where
  \<open>FLOAT_FIGURE_PATTERN seen rest =
     (if prefix ''<figure class="float-left">'' rest then Some 27
      else if prefix ''<figure class="float-right">'' rest then Some 28
      else None)\<close>

text \<open>
  \<open>/```(.*?)$\\n/gm\<close>: three backticks, the rest of the line, and the line feed that
  ends it. The lazy group stops where \<open>$\<close> holds, which is in front of a line terminator, and
  the pattern then needs a line feed there.
\<close>

definition OPENING_FENCE_PATTERN :: matcher where
  "OPENING_FENCE_PATTERN seen rest =
     (if prefix fence rest
      then (let r = drop 3 rest; k = length (takeWhile (\<lambda>c. \<not> is_line_terminator c) r) in
            if k < length r \<and> r ! k = CHR 0x0A then Some (3 + k + 1) else None)
      else None)"

text \<open>The replacement \<open>'<pre class="prettyprint lang-$1">{% htmlescape %}\\n'\<close>.\<close>

definition opening_fence_replacement :: "string \<Rightarrow> string" where
  \<open>opening_fence_replacement m =
     ''<pre class="prettyprint lang-'' @ butlast (drop 3 m) @ ''">{% htmlescape %}'' @ [CHR 0x0A]\<close>

text \<open>\<open>/^```$/gm\<close>: a line that is exactly three backticks.\<close>

definition CLOSING_FENCE_PATTERN :: matcher where
  "CLOSING_FENCE_PATTERN seen rest =
     (if (case seen of [] \<Rightarrow> True | b # bs \<Rightarrow> is_line_terminator b) \<and> prefix fence rest
         \<and> (case drop 3 rest of [] \<Rightarrow> True | c # cs \<Rightarrow> is_line_terminator c)
      then Some 3 else None)"

section \<open>The dialect rewriter (transform)\<close>

text \<open>The two fence rewrites applied to a code block found inside a container.\<close>

definition rewrite_fences :: "string \<Rightarrow> string" where
  \<open>rewrite_fences codeBlock =
     replace_fn CLOSING_FENCE_PATTERN (\<lambda>m. ''{% endhtmlescape %}</pre>'')
       (replace_fn OPENING_FENCE_PATTERN opening_fence_replacement codeBlock)\<close>

text \<open>
  The callback of the inner replace: \<open>codeBlocks[index]\<close> is \<open>undefined\<close> when the index
  names no code block, and calling \<open>replace\<close> on it throws a TypeError.
\<close>

definition nested_token :: "string list \<Rightarrow> string \<Rightarrow> error + string" where
  "nested_token codeBlocks tok =
     (case js_index codeBlocks (token_index MULTI_LINE_CODE_PLACEHOLDER tok) of
        None \<Rightarrow> Inl TypeError
      | Some codeBlock \<Rightarrow> Inr (rewrite_fences codeBlock))"

definition rewrite_nested :: "string list \<Rightarrow> string \<Rightarrow> error + string" where
  "rewrite_nested codeBlocks markdown =
     replace_try NESTED_MULTI_LINE_CODE_PATTERN
       (\<lambda>m. replace_try (token_pattern MULTI_LINE_CODE_PLACEHOLDER) (nested_token codeBlocks) m)
       markdown"

text \<open>The five class rewrites, in the order of the source.\<close>

definition rewrite_classes :: "string \<Rightarrow> string" where
  \<open>rewrite_classes markdown =
     (let m1 = replace_fn FLOAT_FIGURE_PATTERN (\<lambda>m. ''<figure>'') markdown;
          m2 = replace_fn (lit ''<figcaption>'') (\<lambda>m. ''<figcaption class="wd-caption">'') m1;
          m3 = replace_fn (lit ''<figure class="screenshot">'') (\<lambda>m. ''<figure>'') m2;
          m4 = replace_fn (lit ''class="switcher"'') (\<lambda>m. ''class="wd-switcher"'') m3
      in replace_fn (lit ''class="stats'') (\<lambda>m. ''class="wd-stats'') m4)\<close>

text \<open>The last two replacements: raw shortcodes become verbatim shortcodes.\<close>

definition raw_to_verbatim :: "string \<Rightarrow> string" where
  "raw_to_verbatim markdown =
     replace_fn (lit ''{% endraw %}'') (\<lambda>m. ''{% endverbatim %}'')
       (replace_fn (lit ''{% raw %}'') (\<lambda>m. ''{% verbatim %}'') markdown)"

definition transform :: "string \<Rightarrow> error + string" where
  "transform markdown =
     (case pluck MULTI_LINE_CODE_PATTERN MULTI_LINE_CODE_PLACEHOLDER markdown of
        (markdown1, codeBlocks) \<Rightarrow>
     (case pluck INLINE_CODE_PATTERN INLINE_CODE_PLACEHOLDER markdown1 of
        (markdown2, inlineCode) \<Rightarrow>
     (case rewrite_nested codeBlocks (rewrite_classes markdown2) of
        Inl e \<Rightarrow> Inl e
      | Inr markdown3 \<Rightarrow>
          Inr (raw_to_verbatim
                (insert_regions inlineCode INLINE_CODE_PLACEHOLDER
                  (insert_regions codeBlocks MULTI_LINE_CODE_PLACEHOLDER markdown3))))))"

section \<open>The export path\<close>

text \<open>
  \<open>path.parse\<close> of Node.js for POSIX paths, as far as Export.js reads its result (\<open>dir\<close> and
  \<open>name\<close>): the loop walks the path from its last character down to \<open>start\<close>.
\<close>

record parse_state =
  startDot :: int
  startPart :: nat
  endPart :: int
  matchedSlash :: bool
  preDotState :: int

fun parse_loop :: "string \<Rightarrow> nat \<Rightarrow> nat \<Rightarrow> parse_state \<Rightarrow> parse_state" where
  "parse_loop path start 0 st = st"
| "parse_loop path start (Suc n) st =
     (let i = start + n; code = path ! i in
      if code = CHR ''/'' then
        (if \<not> matchedSlash st then st\<lparr>startPart := i + 1\<rparr>
         else parse_loop path start n st)
      else
        (let st1 = (if endPart st = - 1 then st\<lparr>matchedSlash := False, endPart := int i + 1\<rparr>
                    else st);
             st2 = (if code = CHR ''.'' then
                      (if startDot st1 = - 1 then st1\<lparr>startDot := int i\<rparr>
                       else if preDotState st1 \<noteq> 1 then st1\<lparr>preDotState := 1\<rparr>
                       else st1)
                    else if startDot st1 \<noteq> - 1 then st1\<lparr>preDotState := - 1\<rparr>
                    else st1)
         in parse_loop path start n st2))"

definition slice :: "string \<Rightarrow> nat \<Rightarrow> nat \<Rightarrow> string" where
  "slice s a b = take (b - a) (drop a s)"

record parsed_path =
  dir :: string
  name :: string

definition path_parse :: "string \<Rightarrow> parsed_path" where
  "path_parse path =
     (if path = [] then \<lparr>dir = [], name = []\<rparr>
      else
        (let isAbsolute = (hd path = CHR ''/'');
             start = (if isAbsolute then 1 else 0);
             st = parse_loop path start (length path - start)
                    \<lparr>startDot = - 1, startPart = 0, endPart = - 1, matchedSlash = True,
                      preDotState = 0\<rparr>;
             base_start = (if startPart st = 0 \<and> isAbsolute then 1 else startPart st);
             nm = (if endPart st \<noteq> - 1 then
                     (if startDot st = - 1 \<or> preDotState st = 0
                         \<or> (preDotState st = 1 \<and> startDot st = endPart st - 1
                             \<and> startDot st = int (startPart st) + 1)
                      then slice path base_start (nat (endPart st))
                      else slice path base_start (nat (startDot st)))
                   else []);
             d = (if startPart st > 0 then slice path 0 (startPart st - 1)
                  else if isAbsolute then ''/'' else [])
         in \<lparr>dir = d, name = nm\<rparr>))"

definition endsWith :: "string \<Rightarrow> string \<Rightarrow> bool" where
  "endsWith s x \<longleftrightarrow> suffix x s"

definition startsWith :: "string \<Rightarrow> string \<Rightarrow> bool" where
  "startsWith s x \<longleftrightarrow> prefix x s"

definition array_includes :: "string list \<Rightarrow> string \<Rightarrow> bool" where
  "array_includes xs x \<longleftrightarrow> x \<in> set xs"

text \<open>Lines 196 to 201 of Export.js: the directory of the URL, with a trailing slash.\<close>

definition exportDir :: "string \<Rightarrow> string" where
  "exportDir url =
     (let originalUrl = path_parse url;
          exportPath0 = dir originalUrl
      in if \<not> endsWith exportPath0 ''/'' then exportPath0 @ ''/'' else exportPath0)"

text \<open>Lines 203 to 210: the segment the tags add.\<close>

definition exportPath :: "string \<Rightarrow> string list \<Rightarrow> string" where
  "exportPath url tags =
     (let exportPath1 = exportDir url
      in if array_includes tags ''case-study'' then exportPath1 @ ''case-studies/''
         else if array_includes tags ''new-to-the-web'' then exportPath1 @ ''blog/''
         else if exportPath1 = ''/'' then exportPath1 @ ''articles/''
         else exportPath1)"

text \<open>The value stored in the map: \<open>`${exportPath}${originalUrl.name}`\<close>.\<close>

definition exportTarget :: "string \<Rightarrow> string list \<Rightarrow> string" where
  "exportTarget url tags = exportPath url tags @ name (path_parse url)"

section \<open>The export of a page\<close>

text \<open>
  The collaborators of Export are parameters: the page lookup \<open>findByUrl\<close>, the authors
  table read from \<open>authors.yml\<close>, and the Nunjucks environment's \<open>renderString\<close>, which
  answers with an error or with the rendered text. The effects of Export are the writes to
  the \<open>exportUrls\<close> map and the calls it makes, kept in the order they happen.
\<close>

record i18n =
  en :: "string option"

record author =
  title :: "i18n option"

record page =
  content :: "string option"
  authors :: "string list option"
  description :: "string option"
  tags :: "string list option"

record page_context =
  url :: string
  page_title :: string

record render_context = page_context +
  export :: bool
  ctx_exportPath :: string

record collaborators =
  findByUrl :: "string \<Rightarrow> page option"
  authorValues :: "string \<Rightarrow> author option"
  renderString :: "string \<Rightarrow> render_context \<Rightarrow> string + string"

datatype event =
    SetExportUrl string string
  | ConsoleLog string
  | RenderString string
  | ExportFile string string

record state =
  exportUrls :: "string \<Rightarrow> string option"
  events :: "event list"

text \<open>\<open>JSON.stringify\<close> of an array of strings.\<close>

definition hex_digit :: "nat \<Rightarrow> char" where
  "hex_digit d = ''0123456789abcdef'' ! d"

definition json_char :: "char \<Rightarrow> string" where
  "json_char c =
     (if c = CHR 0x22 then [CHR 0x5C, CHR 0x22]
      else if c = CHR 0x5C then [CHR 0x5C, CHR 0x5C]
      else if c = CHR 0x08 then [CHR 0x5C, CHR ''b'']
      else if c = CHR 0x09 then [CHR 0x5C, CHR ''t'']
      else if c = CHR 0x0A then [CHR 0x5C, CHR ''n'']
      else if c = CHR 0x0C then [CHR 0x5C, CHR ''f'']
      else if c = CHR 0x0D then [CHR 0x5C, CHR ''r'']
      else if (of_char c :: nat) < 32
        then [CHR 0x5C, CHR ''u'', CHR ''0'', CHR ''0'',
              hex_digit ((of_char c :: nat) div 16), hex_digit ((of_char c :: nat) mod 16)]
      else [c])"

definition json_string :: "string \<Rightarrow> string" where
  "json_string s = [CHR 0x22] @ concat (map json_char s) @ [CHR 0x22]"

fun join :: "string \<Rightarrow> string list \<Rightarrow> string" where
  "join sep [] = []"
| "join sep [x] = x"
| "join sep (x # y # ys) = x @ sep @ join sep (y # ys)"

definition JSON_stringify :: "string list \<Rightarrow> string" where
  "JSON_stringify xs = ''['' @ join '','' (map json_string xs) @ '']''"

text \<open>
  Line 149: \<open>authorValues[authors[0]].title.en\<close>. The first element of an empty array is
  \<open>undefined\<close>, which as a property key is the text \<open>undefined\<close>; reading \<open>title\<close> of a
  missing author, or \<open>en\<close> of a missing title, throws a TypeError.
\<close>

definition author_name :: "(string \<Rightarrow> author option) \<Rightarrow> string list \<Rightarrow> error + string" where
  "author_name table as =
     (case table (case as of [] \<Rightarrow> ''undefined'' | a # rest \<Rightarrow> a) of
        None \<Rightarrow> Inl TypeError
      | Some entry \<Rightarrow>
          (case title entry of
             None \<Rightarrow> Inl TypeError
           | Some t \<Rightarrow> Inr (case en t of None \<Rightarrow> ''undefined'' | Some n \<Rightarrow> n)))"

text \<open>Lines 143 to 165: the front matter, as the lines \<open>key: value\<close>.\<close>

definition frontMatter :: "(string \<Rightarrow> author option) \<Rightarrow> page \<Rightarrow> page_context \<Rightarrow> error + string" where
  "frontMatter table p ctx =
     (case (case authors p of
              None \<Rightarrow> Inr []
            | Some as \<Rightarrow>
                (case author_name table as of
                   Inl e \<Rightarrow> Inl e
                 | Inr n \<Rightarrow> Inr [(''author_name'', n)])) of
        Inl e \<Rightarrow> Inl e
      | Inr author_entry \<Rightarrow>
          Inr (join [CHR 0x0A]
                (map (\<lambda>(key, value). key @ '': '' @ value)
                  ([(''project_path'', ''/_project.yaml''), (''book_path'', ''/_book.yaml'')]
                   @ author_entry
                   @ (case description p of
                        None \<Rightarrow> [] | Some d \<Rightarrow> if d = [] then [] else [(''description'', d)])
                   @ (if startsWith (url ctx) ''/learn'' then [(''page_type'', ''course'')]
                      else [])))))"

text \<open>Lines 167 to 179: the header put in front of the transformed body.\<close>

definition template :: "string \<Rightarrow> page \<Rightarrow> page_context \<Rightarrow> string" where
  \<open>template fm p ctx =
     fm @ [CHR 0x0A, CHR 0x0A]
     @ ''{% import "/_macros.html" as macros %}'' @ [CHR 0x0A]
     @ ''{% include "/_styles/style.md" %}'' @ [CHR 0x0A, CHR 0x0A]
     @ ''# '' @ page_title ctx @ [CHR 0x0A]
     @ (case authors p of
          None \<Rightarrow> []
        | Some as \<Rightarrow>
            [CHR 0x0A] @ ''{{ macros.Authors('' @ JSON_stringify as @ '') }}'' @ [CHR 0x0A])\<close>

text \<open>
  Lines 218 to 228: the promise around \<open>renderString\<close> never rejects; an error of the
  renderer becomes the text of the body.
\<close>

definition could_not_render :: "string \<Rightarrow> string" where
  "could_not_render err = ''Could not render template: '' @ err"

definition render_markdown :: "collaborators \<Rightarrow> string \<Rightarrow> render_context \<Rightarrow> string" where
  "render_markdown env transformedSource rctx =
     (case renderString env transformedSource rctx of
        Inl err \<Rightarrow> could_not_render err
      | Inr result \<Rightarrow> result)"

text \<open>Line 192: \<open>tags || []\<close>.\<close>

definition page_tags :: "page \<Rightarrow> string list" where
  "page_tags p = (case tags p of None \<Rightarrow> [] | Some ts \<Rightarrow> ts)"

text \<open>Line 216: the context handed to the renderer carries the export path.\<close>

definition export_context :: "page_context \<Rightarrow> page \<Rightarrow> render_context" where
  "export_context ctx p =
     page_context.extend ctx \<lparr>export = True, ctx_exportPath = exportPath (url ctx) (page_tags p)\<rparr>"

text \<open>
  Lines 181 to 232: the raw shortcodes are plucked from the source, the rest is rendered,
  and the raw shortcodes are put back into what the renderer returned.
\<close>

definition rendered_markdown :: "collaborators \<Rightarrow> page_context \<Rightarrow> page \<Rightarrow> string \<Rightarrow> string" where
  "rendered_markdown env ctx p source =
     (case pluck RAW_SHORTCODE_PATTERN RAW_PLACEHOLDER source of
        (transformedSource, rawShortcodes) \<Rightarrow>
          insert_regions rawShortcodes RAW_PLACEHOLDER
            (render_markdown env transformedSource (export_context ctx p)))"

text \<open>
  Lines 213 to 220: the state when the renderer has been called. The map is written and
  the two lines are logged before \<open>renderString\<close> runs.
\<close>

definition state_at_render :: "state \<Rightarrow> page_context \<Rightarrow> page \<Rightarrow> string \<Rightarrow> state" where
  "state_at_render s ctx p source =
     s\<lparr>exportUrls := (exportUrls s)(url ctx \<mapsto> exportTarget (url ctx) (page_tags p)),
       events := events s @
         [SetExportUrl (url ctx) (exportTarget (url ctx) (page_tags p)),
          ConsoleLog (url ctx @ '' '' @ exportTarget (url ctx) (page_tags p)),
          ConsoleLog (''Rendering template '' @ url ctx),
          RenderString (fst (pluck RAW_SHORTCODE_PATTERN RAW_PLACEHOLDER source))]\<rparr>"

text \<open>
  Export, from line 126. The result is the returned text or the exception the promise is
  rejected with, together with the state the call leaves behind.
\<close>

definition Export :: "collaborators \<Rightarrow> page_context \<Rightarrow> state \<Rightarrow> (error + string) \<times> state" where
  "Export env ctx s =
     (case findByUrl env (url ctx) of
        None \<Rightarrow> (Inl TypeError, s)
      | Some p \<Rightarrow>
     (case content p of
        None \<Rightarrow> (Inr [], s)
      | Some source \<Rightarrow>
     if source = [] then (Inr [], s) else
     (case frontMatter (authorValues env) p ctx of
        Inl e \<Rightarrow> (Inl e, s)
      | Inr fm \<Rightarrow>
     (let s1 = state_at_render s ctx p source
      in case transform (rendered_markdown env ctx p source) of
           Inl e \<Rightarrow> (Inl e, s1)
         | Inr body \<Rightarrow>
             (Inr (template fm p ctx @ body),
              s1\<lparr>events := events s1 @
                    [ExportFile (exportPath (url ctx) (page_tags p)) (template fm p ctx @ body)]\<rparr>)))))"

text \<open>
  A page whose export gets as far as the export path: the page is found, it has content,
  and its front matter can be built.
\<close>

definition reaches_export_path :: "collaborators \<Rightarrow> page_context \<Rightarrow> page \<Rightarrow> bool" where
  "reaches_export_path env ctx p \<longleftrightarrow>
     findByUrl env (url ctx) = Some p \<and> (\<exists>src. content p = Some src \<and> src \<noteq> [])
     \<and> (\<exists>fm. frontMatter (authorValues env) p ctx = Inr fm)"

section \<open>Notions used in the statements and proofs\<close>

text \<open>The text a piece stands for.\<close>

fun piece_text :: "piece \<Rightarrow> string" where
  "piece_text (Plain c) = [c]"
| "piece_text (Matched x) = x"


text \<open>
  A placeholder token of the prefix occurs in a text; a match of the scan is directly
  followed by a decimal digit; the plain characters in front of the first match.
\<close>

definition has_token :: "string \<Rightarrow> string \<Rightarrow> bool" where
  "has_token placeholder s \<longleftrightarrow> (\<exists>d \<in> set ''0123456789''. sublist (placeholder @ ''_'' @ [d]) s)"

fun digit_after_match :: "piece list \<Rightarrow> bool" where
  "digit_after_match [] = False"
| "digit_after_match (Matched x # Plain c # ps) = (is_digit c \<or> digit_after_match (Plain c # ps))"
| "digit_after_match (p # ps) = digit_after_match ps"

fun plain_prefix :: "piece list \<Rightarrow> string" where
  "plain_prefix [] = []"
| "plain_prefix (Plain c # ps) = c # plain_prefix ps"
| "plain_prefix (Matched x # ps) = []"







text \<open>Sample collaborators and pages, for the concrete instances below.\<close>

definition sample_env :: "page \<Rightarrow> collaborators" where
  "sample_env p =
     \<lparr>findByUrl = (\<lambda>u. Some p), authorValues = (\<lambda>a. None), renderString = (\<lambda>src rctx. Inr src)\<rparr>"

definition sample_page :: "string \<Rightarrow> string list \<Rightarrow> page" where
  "sample_page src ts = \<lparr>content = Some src, authors = None, description = None, tags = Some ts\<rparr>"

definition sample_ctx :: "string \<Rightarrow> page_context" where
  "sample_ctx u = \<lparr>url = u, page_title = ''Title''\<rparr>"

definition empty_state :: state where
  "empty_state = \<lparr>exportUrls = (\<lambda>u. None), events = []\<rparr>"


definition authors_page :: "string \<Rightarrow> string list \<Rightarrow> page" where
  "authors_page src as = \<lparr>content = Some src, authors = Some as, description = None, tags = None\<rparr>"

definition failing_renderer :: "string \<Rightarrow> page \<Rightarrow> collaborators" where
  "failing_renderer err p =
     \<lparr>findByUrl = (\<lambda>u. Some p), authorValues = (\<lambda>a. None), renderString = (\<lambda>src rctx. Inl err)\<rparr>"

section \<open>Properties of the export path\<close>

lemma sample_reaches_export_path:
  "src \<noteq> [] \<Longrightarrow> reaches_export_path (sample_env (sample_page src ts)) (sample_ctx u) (sample_page src ts)"
  by (simp add: reaches_export_path_def sample_env_def sample_page_def frontMatter_def)

lemma Export_records_target:
  assumes "reaches_export_path env ctx p"
  shows "exportUrls (snd (Export env ctx s)) (url ctx) = Some (exportTarget (url ctx) (page_tags p))"
proof -
  from assms obtain src fm where a: "findByUrl env (url ctx) = Some p" "content p = Some src"
    "src \<noteq> []" "frontMatter (authorValues env) p ctx = Inr fm"
    unfolding reaches_export_path_def by blast
  show ?thesis unfolding Export_def
    by (simp add: a Let_def state_at_render_def split: sum.split)
qed

lemma suffix_of_longer_tail:
  assumes "suffix a (b @ c)" "length a \<le> length c"
  shows "suffix a c"
proof -
  from assms(1) obtain z where z: "b @ c = z @ a" by (auto simp: suffix_def)
  have "drop (length (b @ c) - length a) (b @ c) = a" unfolding z by simp
  moreover have "length (b @ c) - length a = length b + (length c - length a)"
    using assms(2) by simp
  ultimately have "a = drop (length c - length a) c" by simp
  then show ?thesis by (metis suffix_drop)
qed

lemma no_blog_after_case_studies: "\<not> suffix ''blog/'' (d @ ''case-studies/'')"
proof
  assume "suffix ''blog/'' (d @ ''case-studies/'')"
  then have "suffix ''blog/'' ''case-studies/''"
    by (rule suffix_of_longer_tail) simp
  then show False by (simp add: suffix_to_prefix)
qed

text \<open>
  C5. When the tags of a page hold both \<open>case-study\<close> and \<open>new-to-the-web\<close>, the export
  path is the directory followed by \<open>case-studies/\<close>, it does not end in \<open>blog/\<close>, and that
  path is what Export records for the page. The rules are tried in the order case-study,
  new-to-the-web, root directory, and exactly one of the four outcomes applies.
\<close>

theorem case_study_rule_wins:
  "(array_includes ts ''case-study'' \<and> array_includes ts ''new-to-the-web'' \<longrightarrow>
      exportPath u ts = exportDir u @ ''case-studies/''
      \<and> \<not> suffix ''blog/'' (exportPath u ts)
      \<and> (reaches_export_path env ctx p \<and> url ctx = u \<and> page_tags p = ts \<longrightarrow>
           exportUrls (snd (Export env ctx s)) u
             = Some (exportDir u @ ''case-studies/'' @ name (path_parse u))))
   \<and> (array_includes ts ''case-study'' \<longrightarrow> exportPath u ts = exportDir u @ ''case-studies/'')
   \<and> (\<not> array_includes ts ''case-study'' \<and> array_includes ts ''new-to-the-web'' \<longrightarrow>
        exportPath u ts = exportDir u @ ''blog/'')
   \<and> (\<not> array_includes ts ''case-study'' \<and> \<not> array_includes ts ''new-to-the-web''
        \<and> exportDir u = ''/'' \<longrightarrow> exportPath u ts = ''/articles/'')
   \<and> (\<not> array_includes ts ''case-study'' \<and> \<not> array_includes ts ''new-to-the-web''
        \<and> exportDir u \<noteq> ''/'' \<longrightarrow> exportPath u ts = exportDir u)"
proof -
  have rec: "exportUrls (snd (Export env ctx s)) u
               = Some (exportDir u @ ''case-studies/'' @ name (path_parse u))"
    if "array_includes ts ''case-study''" "reaches_export_path env ctx p" "url ctx = u"
       "page_tags p = ts"
    using Export_records_target [OF that(2), of s] that
    by (simp add: exportTarget_def exportPath_def Let_def)
  show ?thesis
    using rec no_blog_after_case_studies [of "exportDir u"]
    by (simp add: exportPath_def Let_def)
qed

theorem case_study_rule_wins_witness:
  "array_includes [''case-study'', ''new-to-the-web''] ''case-study''
   \<and> array_includes [''case-study'', ''new-to-the-web''] ''new-to-the-web''
   \<and> exportPath ''/foo/bar'' [''case-study'', ''new-to-the-web''] = ''/foo/case-studies/''
   \<and> exportUrls (snd (Export (sample_env (sample_page ''text'' [''case-study'', ''new-to-the-web'']))
                          (sample_ctx ''/foo/bar'') empty_state)) ''/foo/bar''
       = Some ''/foo/case-studies/bar''"
proof -
  let ?ts = "[''case-study'', ''new-to-the-web'']"
  let ?p = "sample_page ''text'' ?ts"
  have a: "array_includes ?ts ''case-study''" "array_includes ?ts ''new-to-the-web''"
    by (simp_all add: array_includes_def)
  have d: "exportDir ''/foo/bar'' = ''/foo/''" by code_simp
  have n: "name (path_parse ''/foo/bar'') = ''bar''" by code_simp
  have r: "reaches_export_path (sample_env ?p) (sample_ctx ''/foo/bar'') ?p"
    by (rule sample_reaches_export_path) simp
  have u: "url (sample_ctx ''/foo/bar'') = ''/foo/bar''" by (simp add: sample_ctx_def)
  have t: "page_tags ?p = ?ts" by (simp add: page_tags_def sample_page_def)
  show ?thesis
    using case_study_rule_wins [of ?ts "''/foo/bar''" "sample_env ?p" "sample_ctx ''/foo/bar''" ?p
        empty_state] a d n r u t
    by simp
qed







section \<open>Properties of Export\<close>

lemma Export_reached:
  assumes "findByUrl env (url ctx) = Some p" "content p = Some src" "src \<noteq> []"
    "frontMatter (authorValues env) p ctx = Inr fm"
  shows "Export env ctx s =
           (case transform (rendered_markdown env ctx p src) of
              Inl e \<Rightarrow> (Inl e, state_at_render s ctx p src)
            | Inr body \<Rightarrow>
                (Inr (template fm p ctx @ body),
                 (state_at_render s ctx p src)\<lparr>events := events (state_at_render s ctx p src) @
                    [ExportFile (exportPath (url ctx) (page_tags p)) (template fm p ctx @ body)]\<rparr>))"
  unfolding Export_def by (simp add: assms Let_def)

lemma frontMatter_missing_author:
  assumes "authors p = Some as" "author_name table as = Inl e"
  shows "frontMatter table p ctx = Inl e"
  by (simp add: frontMatter_def assms)

lemma sample_front_matter:
  "frontMatter (\<lambda>a. None) (sample_page src ts) (sample_ctx ''/bar'')
     = Inr (''project_path: /_project.yaml'' @ [CHR 0x0A] @ ''book_path: /_book.yaml'')"
  by (simp add: frontMatter_def sample_page_def sample_ctx_def startsWith_def)

text \<open>
  C6, as stated, fails for a page without source content: Export returns the empty text
  at line 139, before the authors are looked at, and nothing is thrown.
\<close>

theorem missing_author_without_content:
  "Export (sample_env (authors_page [] [''jane''])) (sample_ctx ''/bar'') empty_state
     = (Inr [], empty_state)"
  by (simp add: Export_def sample_env_def authors_page_def)

text \<open>
  C6, amended. For every page that has source content and declares a non-empty authors
  list whose first author id is absent from the authors table, Export fails with a
  TypeError that it does not catch; it returns no document, and it leaves the state as it
  was: no entry in the map, no call of the renderer, no file written.
\<close>

theorem missing_author_aborts_export:
  assumes "findByUrl env (url ctx) = Some p" "content p = Some src" "src \<noteq> []"
    and "authors p = Some (a # as)" "authorValues env a = None"
  shows "Export env ctx s = (Inl TypeError, s)"
proof -
  have "author_name (authorValues env) (a # as) = Inl TypeError"
    by (simp add: author_name_def assms(5))
  then have "frontMatter (authorValues env) p ctx = Inl TypeError"
    using assms(4) by (rule frontMatter_missing_author [rotated])
  then show ?thesis unfolding Export_def by (simp add: assms(1,2,3))
qed

theorem missing_author_aborts_export_witness:
  "Export (sample_env (authors_page ''text'' [''jane''])) (sample_ctx ''/bar'') empty_state
     = (Inl TypeError, empty_state)"
  using missing_author_aborts_export [of "sample_env (authors_page ''text'' [''jane''])"
      "sample_ctx ''/bar''" "authors_page ''text'' [''jane'']" "''text''" "''jane''" "[]"
      empty_state]
  by (simp add: sample_env_def authors_page_def)

text \<open>
  C10, as stated, fails for a page without source content: with an empty authors list
  too, Export returns the empty text at line 139 and nothing is thrown.
\<close>

theorem empty_authors_without_content:
  "Export (sample_env (authors_page [] [])) (sample_ctx ''/bar'') empty_state
     = (Inr [], empty_state)"
  by (simp add: Export_def sample_env_def authors_page_def)

text \<open>
  C10, amended. For every page that has source content and declares an empty authors
  list, Export fails with a TypeError that it does not catch, as long as the authors table
  has no entry under the key \<open>undefined\<close>: the empty list passes the presence check of
  line 148, and \<open>authors[0]\<close> is \<open>undefined\<close>. The page is not treated as author-less.
\<close>

theorem empty_authors_aborts_export:
  assumes "findByUrl env (url ctx) = Some p" "content p = Some src" "src \<noteq> []"
    and "authors p = Some []" "authorValues env ''undefined'' = None"
  shows "Export env ctx s = (Inl TypeError, s)"
proof -
  have "author_name (authorValues env) [] = Inl TypeError"
    by (simp add: author_name_def assms(5))
  then have "frontMatter (authorValues env) p ctx = Inl TypeError"
    using assms(4) by (rule frontMatter_missing_author [rotated])
  then show ?thesis unfolding Export_def by (simp add: assms(1,2,3))
qed

theorem empty_authors_aborts_export_witness:
  "Export (sample_env (authors_page ''text'' [])) (sample_ctx ''/bar'') empty_state
     = (Inl TypeError, empty_state)"
  using empty_authors_aborts_export [of "sample_env (authors_page ''text'' [])"
      "sample_ctx ''/bar''" "authors_page ''text'' []" "''text''" empty_state]
  by (simp add: sample_env_def authors_page_def)

text \<open>
  C9, as stated, fails: the map is written first. In the export of a plain page the write
  to the map is the first effect and the call of the renderer the fourth; and for a page
  whose rewriting throws, the map holds the entry although the rewriter never completed.
\<close>

theorem url_recorded_first:
  \<open>events (snd (Export (sample_env (sample_page ''text'' [])) (sample_ctx ''/bar'') empty_state))
     = [SetExportUrl ''/bar'' ''/articles/bar'',
        ConsoleLog ''/bar /articles/bar'',
        ConsoleLog ''Rendering template /bar'',
        RenderString ''text'',
        ExportFile ''/articles/''
          (''project_path: /_project.yaml'' @ [CHR 0x0A] @ ''book_path: /_book.yaml''
           @ [CHR 0x0A, CHR 0x0A] @ ''{% import "/_macros.html" as macros %}'' @ [CHR 0x0A]
           @ ''{% include "/_styles/style.md" %}'' @ [CHR 0x0A, CHR 0x0A] @ ''# Title''
           @ [CHR 0x0A] @ ''text'')]
   \<and> fst (Export (sample_env (sample_page ''<div>MULTI_LINE_CODE_PLACEHOLDER_0</div>'' []))
              (sample_ctx ''/bar'') empty_state) = Inl TypeError
   \<and> exportUrls (snd (Export (sample_env (sample_page ''<div>MULTI_LINE_CODE_PLACEHOLDER_0</div>'' []))
                          (sample_ctx ''/bar'') empty_state)) ''/bar''
       = Some ''/articles/bar''\<close>
proof -
  let ?bad = \<open>''<div>MULTI_LINE_CODE_PLACEHOLDER_0</div>''\<close>
  have t1: "transform (rendered_markdown (sample_env (sample_page ''text'' [])) (sample_ctx ''/bar'')
              (sample_page ''text'' []) ''text'') = Inr ''text''"
    by code_simp
  have t2: "transform (rendered_markdown (sample_env (sample_page ?bad [])) (sample_ctx ''/bar'')
              (sample_page ?bad []) ?bad) = Inl TypeError"
    by code_simp
  have p: "fst (pluck RAW_SHORTCODE_PATTERN RAW_PLACEHOLDER ''text'') = ''text''"
    by code_simp
  have x: "exportTarget ''/bar'' [] = ''/articles/bar''" "exportPath ''/bar'' [] = ''/articles/''"
    by code_simp+
  have e1: "Export (sample_env (sample_page ''text'' [])) (sample_ctx ''/bar'') empty_state = 
     (case transform (rendered_markdown (sample_env (sample_page ''text'' [])) (sample_ctx ''/bar'')
              (sample_page ''text'' []) ''text'') of
              Inl e \<Rightarrow> (Inl e, state_at_render empty_state (sample_ctx ''/bar'') (sample_page ''text'' []) ''text'')
            | Inr body \<Rightarrow>
                (Inr (template (''project_path: /_project.yaml'' @ [CHR 0x0A] @ ''book_path: /_book.yaml'') (sample_page ''text'' []) (sample_ctx ''/bar'') @ body),
                 (state_at_render empty_state (sample_ctx ''/bar'') (sample_page ''text'' []) ''text'')\<lparr>events := events (state_at_render empty_state (sample_ctx ''/bar'') (sample_page ''text'' []) ''text'') @
                    [ExportFile (exportPath (url (sample_ctx ''/bar'')) (page_tags (sample_page ''text'' []))) (template (''project_path: /_project.yaml'' @ [CHR 0x0A] @ ''book_path: /_book.yaml'') (sample_page ''text'' []) (sample_ctx ''/bar'') @ body)]\<rparr>))"
    by (rule Export_reached) (simp_all add: sample_env_def sample_page_def sample_ctx_def sample_front_matter [unfolded sample_page_def sample_ctx_def])
  have e2: "Export (sample_env (sample_page ?bad [])) (sample_ctx ''/bar'') empty_state = 
     (case transform (rendered_markdown (sample_env (sample_page ?bad [])) (sample_ctx ''/bar'')
              (sample_page ?bad []) ?bad) of
              Inl e \<Rightarrow> (Inl e, state_at_render empty_state (sample_ctx ''/bar'') (sample_page ?bad []) ?bad)
            | Inr body \<Rightarrow>
                (Inr (template (''project_path: /_project.yaml'' @ [CHR 0x0A] @ ''book_path: /_book.yaml'') (sample_page ?bad []) (sample_ctx ''/bar'') @ body),
                 (state_at_render empty_state (sample_ctx ''/bar'') (sample_page ?bad []) ?bad)\<lparr>events := events (state_at_render empty_state (sample_ctx ''/bar'') (sample_page ?bad []) ?bad) @
                    [ExportFile (exportPath (url (sample_ctx ''/bar'')) (page_tags (sample_page ?bad []))) (template (''project_path: /_project.yaml'' @ [CHR 0x0A] @ ''book_path: /_book.yaml'') (sample_page ?bad []) (sample_ctx ''/bar'') @ body)]\<rparr>))"
    by (rule Export_reached) (simp_all add: sample_env_def sample_page_def sample_ctx_def sample_front_matter [unfolded sample_page_def sample_ctx_def])
  have g: "page_tags (sample_page src []) = []" for src
    by (simp add: page_tags_def sample_page_def)
  have u: "url (sample_ctx ''/bar'') = ''/bar''" by (simp add: sample_ctx_def)
  have a: "authors (sample_page src []) = None" for src by (simp add: sample_page_def)
  have ti: "page_title (sample_ctx ''/bar'') = ''Title''" by (simp add: sample_ctx_def)
  show ?thesis
    unfolding e1 e2 t1 t2
    by (simp add: state_at_render_def empty_state_def g u p x template_def a ti)
qed

text \<open>
  C9, amended. The export path is resolved and the URL mapping is recorded before the
  renderer is called and before the Dialect Rewriter runs: once the page has content and
  its front matter is built, the write to the map is the first effect of Export, the call
  of the renderer follows it and is given the resolved path in its context, and only the
  write of the file waits for rendering and rewriting. The map holds the entry whether or
  not the rewriter completes.
\<close>

theorem url_recorded_before_render:
  assumes "findByUrl env (url ctx) = Some p" "content p = Some src" "src \<noteq> []"
    "frontMatter (authorValues env) p ctx = Inr fm"
  shows "events (snd (Export env ctx s)) =
           events s @
           [SetExportUrl (url ctx) (exportTarget (url ctx) (page_tags p)),
            ConsoleLog (url ctx @ '' '' @ exportTarget (url ctx) (page_tags p)),
            ConsoleLog (''Rendering template '' @ url ctx),
            RenderString (fst (pluck RAW_SHORTCODE_PATTERN RAW_PLACEHOLDER src))] @
           (case transform (rendered_markdown env ctx p src) of
              Inl e \<Rightarrow> []
            | Inr body \<Rightarrow>
                [ExportFile (exportPath (url ctx) (page_tags p)) (template fm p ctx @ body)])
         \<and> exportUrls (snd (Export env ctx s)) (url ctx)
             = Some (exportTarget (url ctx) (page_tags p))
         \<and> ctx_exportPath (export_context ctx p) = exportPath (url ctx) (page_tags p)"
  unfolding Export_reached [OF assms]
  by (simp add: state_at_render_def export_context_def page_context.extend_def split: sum.split)

theorem url_recorded_before_render_witness:
  "hd (events (snd (Export (sample_env (sample_page ''text'' [''web''])) (sample_ctx ''/bar'')
                     empty_state)))
     = SetExportUrl ''/bar'' ''/articles/bar''
   \<and> exportUrls (snd (Export (sample_env (sample_page ''text'' [''web''])) (sample_ctx ''/bar'')
                          empty_state)) ''/bar''
       = Some ''/articles/bar''"
proof -
  let ?p = "sample_page ''text'' [''web'']"
  have x: "exportTarget ''/bar'' [''web''] = ''/articles/bar''" by code_simp
  have g: "page_tags ?p = [''web'']" by (simp add: page_tags_def sample_page_def)
  have u: "url (sample_ctx ''/bar'') = ''/bar''" by (simp add: sample_ctx_def)
  have f: "frontMatter (authorValues (sample_env ?p)) ?p (sample_ctx ''/bar'')
             = Inr (''project_path: /_project.yaml'' @ [CHR 0x0A] @ ''book_path: /_book.yaml'')"
    using sample_front_matter [of "''text''" "[''web'']"] by (simp add: sample_env_def)
  have c: "findByUrl (sample_env ?p) (url (sample_ctx ''/bar'')) = Some ?p"
    "content ?p = Some ''text''" "''text'' \<noteq> []"
    by (simp_all add: sample_env_def sample_page_def)
  show ?thesis
    using url_recorded_before_render [OF c f, of empty_state]
    by (simp add: g u x empty_state_def)
qed

lemma rendered_markdown_failure:
  assumes "renderString env (fst (pluck RAW_SHORTCODE_PATTERN RAW_PLACEHOLDER src)) (export_context ctx p) = Inl err"
  shows "rendered_markdown env ctx p src =
           insert_regions (snd (pluck RAW_SHORTCODE_PATTERN RAW_PLACEHOLDER src)) RAW_PLACEHOLDER
             (could_not_render err)"
  using assms by (simp add: rendered_markdown_def render_markdown_def case_prod_beta)

lemma rendered_markdown_success:
  assumes "renderString env (fst (pluck RAW_SHORTCODE_PATTERN RAW_PLACEHOLDER src)) (export_context ctx p) = Inr out"
  shows "rendered_markdown env ctx p src =
           insert_regions (snd (pluck RAW_SHORTCODE_PATTERN RAW_PLACEHOLDER src)) RAW_PLACEHOLDER out"
  using assms by (simp add: rendered_markdown_def render_markdown_def case_prod_beta)

text \<open>
  C7, amended. When the export of a page reaches the renderer and the renderer reports an
  error, Export does not propagate it: the text \<open>Could not render template: \<close> followed
  by the error stands in for the rendered body, and Export goes on exactly as if the
  renderer had returned that text. Whenever the Dialect Rewriter completes on that body
  (with the raw shortcodes put back), Export returns the complete document, header and
  rewritten body, and hands it to the file writer.
\<close>

theorem render_failure_becomes_body:
  assumes "findByUrl env (url ctx) = Some p" "content p = Some src" "src \<noteq> []"
    "frontMatter (authorValues env) p ctx = Inr fm"
    and "renderString env (fst (pluck RAW_SHORTCODE_PATTERN RAW_PLACEHOLDER src))
           (export_context ctx p) = Inl err"
  shows "Export env ctx s
           = Export (env\<lparr>renderString := (\<lambda>t c. Inr (could_not_render err))\<rparr>) ctx s
         \<and> (\<forall>body.
              transform (insert_regions (snd (pluck RAW_SHORTCODE_PATTERN RAW_PLACEHOLDER src))
                 RAW_PLACEHOLDER (could_not_render err)) = Inr body
              \<longrightarrow> fst (Export env ctx s) = Inr (template fm p ctx @ body)
                  \<and> last (events (snd (Export env ctx s)))
                      = ExportFile (exportPath (url ctx) (page_tags p)) (template fm p ctx @ body))"
proof -
  let ?env' = "env\<lparr>renderString := (\<lambda>t c. Inr (could_not_render err))\<rparr>"
  let ?md = "insert_regions (snd (pluck RAW_SHORTCODE_PATTERN RAW_PLACEHOLDER src))
                 RAW_PLACEHOLDER (could_not_render err)"
  have m: "rendered_markdown env ctx p src = ?md"
    by (rule rendered_markdown_failure [OF assms(5)])
  have m': "rendered_markdown ?env' ctx p src = ?md"
    by (rule rendered_markdown_success) simp
  have a': "findByUrl ?env' (url ctx) = Some p" "frontMatter (authorValues ?env') p ctx = Inr fm"
    using assms(1,4) by simp_all
  note e = Export_reached [OF assms(1-4), of s, unfolded m]
  note e' = Export_reached [OF a'(1) assms(2,3) a'(2), of s, unfolded m']
  show ?thesis unfolding e e' by (simp split: sum.split)
qed

theorem render_failure_becomes_body_witness:
  \<open>fst (Export (failing_renderer ''unknown block tag'' (sample_page ''text'' [])) (sample_ctx ''/bar'')
          empty_state)
     = Inr (''project_path: /_project.yaml'' @ [CHR 0x0A] @ ''book_path: /_book.yaml''
           @ [CHR 0x0A, CHR 0x0A] @ ''{% import "/_macros.html" as macros %}'' @ [CHR 0x0A]
           @ ''{% include "/_styles/style.md" %}'' @ [CHR 0x0A, CHR 0x0A] @ ''# Title''
           @ [CHR 0x0A] @ ''Could not render template: unknown block tag'')\<close>
proof -
  let ?p = "sample_page ''text'' []"
  let ?env = "failing_renderer ''unknown block tag'' ?p"
  let ?fm = "''project_path: /_project.yaml'' @ [CHR 0x0A] @ ''book_path: /_book.yaml''"
  have c: "findByUrl ?env (url (sample_ctx ''/bar'')) = Some ?p"
    "content ?p = Some ''text''" "''text'' \<noteq> []"
    by (simp_all add: failing_renderer_def sample_page_def)
  have f: "frontMatter (authorValues ?env) ?p (sample_ctx ''/bar'') = Inr ?fm"
    using sample_front_matter [of "''text''" "[]"] by (simp add: failing_renderer_def)
  have r: "renderString ?env (fst (pluck RAW_SHORTCODE_PATTERN RAW_PLACEHOLDER ''text''))
             (export_context (sample_ctx ''/bar'') ?p) = Inl ''unknown block tag''"
    by (simp add: failing_renderer_def)
  have t: "transform (insert_regions (snd (pluck RAW_SHORTCODE_PATTERN RAW_PLACEHOLDER ''text''))
             RAW_PLACEHOLDER (could_not_render ''unknown block tag''))
           = Inr ''Could not render template: unknown block tag''"
    by code_simp
  have a: "authors ?p = None" by (simp add: sample_page_def)
  have ti: "page_title (sample_ctx ''/bar'') = ''Title''" by (simp add: sample_ctx_def)
  show ?thesis
    using render_failure_becomes_body [OF c f r, of empty_state, THEN conjunct2] t
    by (simp add: template_def a ti)
qed

text \<open>
  C7, as stated, fails: the text of the error goes through the Dialect Rewriter like any
  rendered body, and the rewriter throws when a container in it holds a code placeholder
  that names no code block. Export then returns no document.
\<close>

theorem render_failure_can_throw:
  \<open>fst (Export (failing_renderer ''<div>MULTI_LINE_CODE_PLACEHOLDER_0</div>'' (sample_page ''text'' []))
          (sample_ctx ''/bar'') empty_state) = Inl TypeError\<close>
proof -
  let ?p = "sample_page ''text'' []"
  let ?env = \<open>failing_renderer ''<div>MULTI_LINE_CODE_PLACEHOLDER_0</div>'' ?p\<close>
  let ?fm = "''project_path: /_project.yaml'' @ [CHR 0x0A] @ ''book_path: /_book.yaml''"
  have c: "findByUrl ?env (url (sample_ctx ''/bar'')) = Some ?p"
    "content ?p = Some ''text''" "''text'' \<noteq> []"
    by (simp_all add: failing_renderer_def sample_page_def)
  have f: "frontMatter (authorValues ?env) ?p (sample_ctx ''/bar'') = Inr ?fm"
    using sample_front_matter [of "''text''" "[]"] by (simp add: failing_renderer_def)
  have t: "transform (rendered_markdown ?env (sample_ctx ''/bar'') ?p ''text'') = Inl TypeError"
    by code_simp
  show ?thesis
    unfolding Export_reached [OF c f] t by simp
qed


section \<open>Properties of the scan and of the placeholder protector\<close>

lemma scan_concat: "concat (map piece_text (scan m sn s)) = s"
  by (induction m sn s rule: scan.induct) (auto split: option.splits nat.splits)







lemma scan_match:
  assumes "m sn (x @ y) = Some (length x)" "x \<noteq> []"
  shows "scan m sn (x @ y) = Matched x # scan m (rev x @ sn) y"
proof -
  obtain c x' where x: "x = c # x'" using assms(2) by (cases x) auto
  show ?thesis using assms(1) unfolding x by simp
qed

lemma digit_char_digit: "d < 10 \<Longrightarrow> is_digit (digit_char d)"
proof -
  assume "d < 10"
  then have "d \<in> {0,1,2,3,4,5,6,7,8,9}" by auto
  then show ?thesis by (auto simp: is_digit_def digit_char_def)
qed

lemma digit_char_inj: "a < 10 \<Longrightarrow> b < 10 \<Longrightarrow> digit_char a = digit_char b \<Longrightarrow> a = b"
proof -
  assume "a < 10" "b < 10" and e: "digit_char a = digit_char b"
  then have "a \<in> {0,1,2,3,4,5,6,7,8,9}" "b \<in> {0,1,2,3,4,5,6,7,8,9}" by auto
  then show ?thesis using e by (auto simp: digit_char_def)
qed

lemma show_nat_nonempty: "show_nat n \<noteq> []"
  by (subst show_nat.simps) simp

lemma show_nat_digits: "c \<in> set (show_nat n) \<Longrightarrow> is_digit c"
proof (induction n rule: show_nat.induct)
  case (1 n)
  show ?case
  proof (cases "n < 10")
    case True
    then show ?thesis using "1.prems" by (subst (asm) show_nat.simps) (simp add: digit_char_digit)
  next
    case False
    then show ?thesis using "1.prems" "1.IH"
      by (subst (asm) show_nat.simps) (auto simp: digit_char_digit)
  qed
qed

lemma show_nat_inj: "show_nat n = show_nat m \<Longrightarrow> n = m"
proof (induction n arbitrary: m rule: show_nat.induct)
  case (1 n)
  show ?case
  proof (cases "n < 10")
    case True
    note n = this
    show ?thesis
    proof (cases "m < 10")
      case True
      then show ?thesis using n "1.prems"
        by (simp add: show_nat.simps [of n] show_nat.simps [of m] digit_char_inj)
    next
      case False
      then show ?thesis using n "1.prems" show_nat_nonempty [of "m div 10"]
        by (simp add: show_nat.simps [of n] show_nat.simps [of m])
    qed
  next
    case False
    note n = this
    show ?thesis
    proof (cases "m < 10")
      case True
      then show ?thesis using n "1.prems" show_nat_nonempty [of "n div 10"]
        by (simp add: show_nat.simps [of n] show_nat.simps [of m])
    next
      case False
      then have e: "show_nat (n div 10) = show_nat (m div 10)"
        "digit_char (n mod 10) = digit_char (m mod 10)"
        using n "1.prems" by (simp_all add: show_nat.simps [of n] show_nat.simps [of m])
      have "n div 10 = m div 10" using "1.IH" [OF n e(1)] .
      moreover have "n mod 10 = m mod 10" using e(2) by (simp add: digit_char_inj)
      ultimately show ?thesis by (metis div_mult_mod_eq)
    qed
  qed
qed

lemma find_first_index:
  assumes "i < n" "P i" "\<And>j. j < i \<Longrightarrow> \<not> P j"
  shows "find P [0..<n] = Some i"
  using assms by (auto simp: find_Some_iff intro!: exI [of _ i])

lemma js_index_show_nat: "i < length xs \<Longrightarrow> js_index xs (show_nat i) = Some (xs ! i)"
proof -
  assume i: "i < length xs"
  have "find (\<lambda>j. show_nat j = show_nat i) [0..<length xs] = Some i"
    using i by (intro find_first_index) (auto dest: show_nat_inj)
  then show ?thesis by (simp add: js_index_def)
qed

lemma plain_prefix_prefix: "prefix (plain_prefix ps) (concat (map piece_text ps))"
  by (induction ps rule: plain_prefix.induct) auto

lemma underscore_not_digit: "\<not> is_digit (CHR ''_'')"
  by (simp add: is_digit_def)

lemma takeWhile_prefix_stop:
  assumes "prefix (q @ [d]) s" "\<forall>c \<in> set q. ok c" "\<not> ok d"
  shows "takeWhile ok s = q"
proof -
  from assms(1) obtain r where "s = q @ d # r" by (auto simp: prefix_def)
  then show ?thesis using assms(2,3) by (simp add: takeWhile_tail)
qed

text \<open>A token cannot start inside plain text that runs into a token.\<close>

lemma no_token_across:
  assumes q: "\<forall>c \<in> set q. \<not> is_digit c" and d: "is_digit d" and e: "is_digit e"
    and w: "w \<noteq> []" and p: "prefix (q @ [d]) (w @ q @ e # r)"
  shows "prefix (q @ [d]) w"
proof (cases "\<forall>c \<in> set w. \<not> is_digit c")
  case True
  have "takeWhile (\<lambda>c. \<not> is_digit c) (w @ q @ e # r) = q"
    using takeWhile_prefix_stop [OF p, of "\<lambda>c. \<not> is_digit c"] q d by simp
  moreover have "takeWhile (\<lambda>c. \<not> is_digit c) (w @ q @ e # r) = w @ q"
    using True q e by (simp add: takeWhile_tail)
  ultimately show ?thesis using w by simp
next
  case False
  then obtain w1 x w2 where s: "w = w1 @ x # w2" "is_digit x" "\<forall>c \<in> set w1. \<not> is_digit c"
    by (metis split_list_first_prop)
  have "takeWhile (\<lambda>c. \<not> is_digit c) (w @ q @ e # r) = q"
    using takeWhile_prefix_stop [OF p, of "\<lambda>c. \<not> is_digit c"] q d by simp
  moreover have "takeWhile (\<lambda>c. \<not> is_digit c) (w @ q @ e # r) = w1"
    using s by (simp add: takeWhile_tail)
  ultimately have "w1 = q" by simp
  then have "prefix (q @ [d]) (q @ x # w2 @ q @ e # r)" using p s(1) by simp
  then have "d = x" by simp
  then show ?thesis using s(1) \<open>w1 = q\<close> by simp
qed



lemma pluck_pieces_Plain:
  "fst (pluck_pieces P i (Plain c # ps)) = c # fst (pluck_pieces P i ps)"
  "snd (pluck_pieces P i (Plain c # ps)) = snd (pluck_pieces P i ps)"
  by (simp_all add: case_prod_beta)

lemma pluck_pieces_Matched:
  "fst (pluck_pieces P i (Matched x # ps)) = placeholder_token P i @ fst (pluck_pieces P (Suc i) ps)"
  "snd (pluck_pieces P i (Matched x # ps)) = x # snd (pluck_pieces P (Suc i) ps)"
  by (simp_all add: case_prod_beta)

lemma placeholder_token_shape:
  "\<exists>e r. is_digit e \<and> placeholder_token P i = (P @ ''_'') @ e # r"
proof -
  obtain e r where "show_nat i = e # r" using show_nat_nonempty [of i] by (cases "show_nat i") auto
  moreover from this have "is_digit e" using show_nat_digits [of e i] by simp
  ultimately show ?thesis by (auto simp: placeholder_token_def)
qed

lemma token_in_plain_prefix:
  assumes "\<forall>c \<in> set P. \<not> is_digit c" "is_digit d" "w \<noteq> []"
    "prefix ((P @ ''_'') @ [d]) (w @ fst (pluck_pieces P i ps))"
  shows "prefix ((P @ ''_'') @ [d]) (w @ plain_prefix ps)"
  using assms(3,4)
proof (induction ps arbitrary: w i)
  case Nil
  then show ?case by simp
next
  case (Cons p ps)
  show ?case
  proof (cases p)
    case (Plain c)
    have "prefix ((P @ ''_'') @ [d]) ((w @ [c]) @ fst (pluck_pieces P i ps))"
      using Cons.prems(2) unfolding Plain pluck_pieces_Plain by simp
    then have "prefix ((P @ ''_'') @ [d]) ((w @ [c]) @ plain_prefix ps)"
      by (intro Cons.IH) simp_all
    then show ?thesis unfolding Plain by simp
  next
    case (Matched x)
    obtain e r where t: "is_digit e" "placeholder_token P i = (P @ ''_'') @ e # r"
      using placeholder_token_shape by blast
    have q: "\<forall>c \<in> set (P @ ''_''). \<not> is_digit c"
      using assms(1) by (auto simp: underscore_not_digit)
    have "prefix ((P @ ''_'') @ [d]) (w @ (P @ ''_'') @ e # (r @ fst (pluck_pieces P (Suc i) ps)))"
      using Cons.prems(2) unfolding Matched pluck_pieces_Matched t(2) by simp
    then have "prefix ((P @ ''_'') @ [d]) w"
      by (rule no_token_across [OF q assms(2) t(1) Cons.prems(1)])
    then show ?thesis unfolding Matched by simp
  qed
qed

lemma token_pattern_Some:
  assumes "token_pattern P sn s = Some n"
  shows "\<exists>d. is_digit d \<and> prefix ((P @ ''_'') @ [d]) s"
proof -
  from assms have p: "prefix (P @ ''_'') s"
    and t: "takeWhile is_digit (drop (length P + 1) s) \<noteq> []"
    by (auto simp: token_pattern_def split: if_splits list.splits)
  from p obtain r where s: "s = (P @ ''_'') @ r" by (auto simp: prefix_def)
  with t obtain d r' where "r = d # r'" "is_digit d"
    by (cases r) (auto split: if_splits)
  then show ?thesis using s by auto
qed

lemma token_pattern_at_token:
  assumes "rest = [] \<or> \<not> is_digit (hd rest)"
  shows "token_pattern P sn (placeholder_token P i @ rest) = Some (length (placeholder_token P i))"
proof -
  have "takeWhile is_digit (show_nat i @ rest) = show_nat i"
    using assms show_nat_digits [of _ i] by (cases rest) (auto simp: takeWhile_tail)
  moreover obtain e r where "show_nat i = e # r"
    using show_nat_nonempty [of i] by (cases "show_nat i") auto
  ultimately show ?thesis
    by (simp add: token_pattern_def placeholder_token_def)
qed

lemma restore_token:
  "i < length matches \<Longrightarrow> restore matches P (placeholder_token P i) = matches ! i"
  by (simp add: restore_def token_index_def placeholder_token_def js_index_show_nat)

lemma placeholder_token_nonempty: "placeholder_token P i \<noteq> []"
  by (simp add: placeholder_token_def)

lemma pluck_no_leading_digit:
  assumes "\<forall>c \<in> set P. \<not> is_digit c" "\<not> digit_after_match (Matched x # ps)"
  shows "fst (pluck_pieces P i ps) = [] \<or> \<not> is_digit (hd (fst (pluck_pieces P i ps)))"
proof (cases ps)
  case Nil
  then show ?thesis by simp
next
  case (Cons p ps')
  show ?thesis
  proof (cases p)
    case (Plain c)
    then show ?thesis using assms(2) unfolding Cons Plain pluck_pieces_Plain by simp
  next
    case (Matched y)
    have "\<not> is_digit (hd (placeholder_token P i @ r))" for r
      using assms(1) by (cases P) (auto simp: placeholder_token_def underscore_not_digit)
    then show ?thesis unfolding Cons Matched pluck_pieces_Matched by simp
  qed
qed

lemma digit_after_match_tail: "\<not> digit_after_match (p # ps) \<Longrightarrow> \<not> digit_after_match ps"
  by (cases "(p # ps)" rule: digit_after_match.cases) auto

lemma has_token_suffix:
  assumes "\<not> has_token P (x @ s)" shows "\<not> has_token P s"
  using assms unfolding has_token_def
  by (meson sublist_appendI sublist_order.order.trans sublist_append_rightI sublist_append_leftI)

lemma digit_in_list: "is_digit d \<Longrightarrow> d \<in> set ''0123456789''"
  by (simp add: is_digit_def)

lemma roundtrip_pieces:
  assumes P: "\<forall>c \<in> set P. \<not> is_digit c"
  shows "\<not> has_token P (concat (map piece_text ps)) \<Longrightarrow> \<not> digit_after_match ps \<Longrightarrow>
         length pre = i \<Longrightarrow>
         concat (map (render_piece (restore (pre @ snd (pluck_pieces P i ps)) P))
                 (scan (token_pattern P) sn (fst (pluck_pieces P i ps))))
           = concat (map piece_text ps)"
proof (induction ps arbitrary: i pre sn)
  case Nil
  have "token_pattern P sn [] = None" by (simp add: token_pattern_def)
  then show ?case by simp
next
  case (Cons p ps)
  have tail: "\<not> digit_after_match ps" using Cons.prems(2) by (rule digit_after_match_tail)
  show ?case
  proof (cases p)
    case (Plain c)
    have nt: "\<not> has_token P (concat (map piece_text ps))"
      using Cons.prems(1) has_token_suffix [of P "[c]"] unfolding Plain by simp
    have none: "token_pattern P sn (c # fst (pluck_pieces P i ps)) = None"
    proof (rule ccontr)
      assume "token_pattern P sn (c # fst (pluck_pieces P i ps)) \<noteq> None"
      then obtain n where "token_pattern P sn (c # fst (pluck_pieces P i ps)) = Some n" by auto
      then obtain d where d: "is_digit d"
        "prefix ((P @ ''_'') @ [d]) ([c] @ fst (pluck_pieces P i ps))"
        using token_pattern_Some by fastforce
      have "prefix ((P @ ''_'') @ [d]) ([c] @ plain_prefix ps)"
        by (rule token_in_plain_prefix [OF P d(1) _ d(2)]) simp
      moreover have "prefix ([c] @ plain_prefix ps) ([c] @ concat (map piece_text ps))"
        using plain_prefix_prefix [of ps] by simp
      ultimately have "prefix ((P @ ''_'') @ [d]) (concat (map piece_text (p # ps)))"
        unfolding Plain by (simp only: list.map concat.simps piece_text.simps)
      then have "sublist (P @ ''_'' @ [d]) (concat (map piece_text (p # ps)))"
        by (simp add: prefix_imp_sublist)
      then show False using Cons.prems(1) d(1) digit_in_list unfolding has_token_def by blast
    qed
    have "scan (token_pattern P) sn (fst (pluck_pieces P i (p # ps)))
            = Plain c # scan (token_pattern P) (c # sn) (fst (pluck_pieces P i ps))"
      unfolding Plain pluck_pieces_Plain using none by simp
    then show ?thesis
      using Cons.IH [OF nt tail Cons.prems(3), of "c # sn"]
      unfolding Plain pluck_pieces_Plain by simp
  next
    case (Matched x)
    let ?out = "fst (pluck_pieces P (Suc i) ps)"
    let ?tok = "placeholder_token P i"
    have nt: "\<not> has_token P (concat (map piece_text ps))"
      using Cons.prems(1) has_token_suffix [of P x] unfolding Matched by simp
    have nd: "?out = [] \<or> \<not> is_digit (hd ?out)"
      using pluck_no_leading_digit [OF P] Cons.prems(2) unfolding Matched by blast
    have m: "token_pattern P sn (?tok @ ?out) = Some (length ?tok)"
      by (rule token_pattern_at_token [OF nd])
    have sc: "scan (token_pattern P) sn (?tok @ ?out)
                = Matched ?tok # scan (token_pattern P) (rev ?tok @ sn) ?out"
      using scan_match [of "token_pattern P" sn ?tok ?out] m placeholder_token_nonempty [of P i] by simp
    have r: "restore (pre @ x # snd (pluck_pieces P (Suc i) ps)) P ?tok = x"
      using restore_token [of i "pre @ x # snd (pluck_pieces P (Suc i) ps)" P]
        Cons.prems(3) [symmetric]
      by simp
    have ih: "concat (map (render_piece (restore ((pre @ [x]) @ snd (pluck_pieces P (Suc i) ps)) P))
                 (scan (token_pattern P) (rev ?tok @ sn) ?out))
           = concat (map piece_text ps)"
      by (rule Cons.IH [OF nt tail]) (simp add: Cons.prems(3))
    show ?thesis
      unfolding Matched pluck_pieces_Matched sc using r ih by simp
  qed
qed

lemma insert_regions_restore:
  "insert_regions matches P s
     = concat (map (render_piece (restore matches P)) (scan (token_pattern P) [] s))"
  by (simp add: insert_regions_def replace_fn_def)

lemma insert_pluck_roundtrip:
  assumes "\<forall>c \<in> set placeholder. \<not> is_digit c"
    and "\<not> has_token placeholder txt"
    and "\<not> digit_after_match (scan pattern [] txt)"
  shows "insert_regions (snd (pluck pattern placeholder txt)) placeholder
           (fst (pluck pattern placeholder txt)) = txt"
  using roundtrip_pieces [OF assms(1), of "scan pattern [] txt" "[]" 0 "[]"] assms(2,3)
  by (simp add: insert_regions_restore pluck_def scan_concat)

text \<open>
  C4, as stated, fails when the text already holds a placeholder token: extraction leaves
  that token in place, and restoring replaces it by a region as well.
\<close>

theorem literal_token_breaks_roundtrip:
  "pluck RAW_SHORTCODE_PATTERN RAW_PLACEHOLDER ''RAW_PLACEHOLDER_0 {% raw %}x{% endraw %}''
     = (''RAW_PLACEHOLDER_0 RAW_PLACEHOLDER_0'', [''{% raw %}x{% endraw %}''])
   \<and> insert_regions [''{% raw %}x{% endraw %}''] RAW_PLACEHOLDER
         ''RAW_PLACEHOLDER_0 RAW_PLACEHOLDER_0''
       = ''{% raw %}x{% endraw %} {% raw %}x{% endraw %}''"
  by code_simp

text \<open>
  C4, amended. For every pattern, every prefix without a decimal digit, and every text in
  which no placeholder token of that prefix occurs and no match of the pattern is directly
  followed by a decimal digit, restoring right after extracting, with the region list the
  extraction produced, yields exactly the original text.
\<close>

theorem insert_after_pluck_restores:
  assumes "\<forall>c \<in> set placeholder. \<not> is_digit c"
    and "\<not> has_token placeholder txt"
    and "\<not> digit_after_match (scan pattern [] txt)"
    and "pluck pattern placeholder txt = (newText, regionList)"
  shows "insert_regions regionList placeholder newText = txt"
  using insert_pluck_roundtrip [OF assms(1,2,3)] assms(4) by simp

theorem insert_after_pluck_restores_witness:
  "pluck RAW_SHORTCODE_PATTERN RAW_PLACEHOLDER ''a {% raw %}x{% endraw %} b {% raw %}{{y}}{% endraw %}''
     = (''a RAW_PLACEHOLDER_0 b RAW_PLACEHOLDER_1'', [''{% raw %}x{% endraw %}'', ''{% raw %}{{y}}{% endraw %}''])
   \<and> insert_regions [''{% raw %}x{% endraw %}'', ''{% raw %}{{y}}{% endraw %}''] RAW_PLACEHOLDER
         ''a RAW_PLACEHOLDER_0 b RAW_PLACEHOLDER_1''
       = ''a {% raw %}x{% endraw %} b {% raw %}{{y}}{% endraw %}''"
proof -
  let ?txt = "''a {% raw %}x{% endraw %} b {% raw %}{{y}}{% endraw %}''"
  have p: "pluck RAW_SHORTCODE_PATTERN RAW_PLACEHOLDER ?txt
     = (''a RAW_PLACEHOLDER_0 b RAW_PLACEHOLDER_1'', [''{% raw %}x{% endraw %}'', ''{% raw %}{{y}}{% endraw %}''])"
    by code_simp
  have d: "\<forall>c \<in> set RAW_PLACEHOLDER. \<not> is_digit c"
    by (simp add: RAW_PLACEHOLDER_def is_digit_def)
  have h: "\<not> has_token RAW_PLACEHOLDER ?txt" by code_simp
  have a: "\<not> digit_after_match (scan RAW_SHORTCODE_PATTERN [] ?txt)" by code_simp
  show ?thesis
    using insert_after_pluck_restores [OF d h a p] p by simp
qed

section \<open>The rewrite of code blocks nested in a container\<close>

text \<open>
  C8. The opening-fence pattern is not anchored to the start of a line, the closing-fence
  pattern is. A code block in a container whose fences are indented has its opening fence
  line replaced and its closing fence left as it is: a bare fence marker stays in the
  rewritten span, after a \<open>pre\<close> tag and an escape marker that nothing closes. The same
  block without the indentation is rewritten on both ends.
\<close>

theorem indented_closing_fence_stays_bare:
  \<open>transform (''<div>'' @ [CHR 0x0A] @ ''  ```js'' @ [CHR 0x0A] @ ''  foo'' @ [CHR 0x0A]
                @ ''  ```'' @ [CHR 0x0A] @ ''</div>'')
     = Inr (''<div>'' @ [CHR 0x0A] @ ''  <pre class="prettyprint lang-js">{% htmlescape %}''
            @ [CHR 0x0A] @ ''  foo'' @ [CHR 0x0A] @ ''  ```'' @ [CHR 0x0A] @ ''</div>'')
   \<and> transform (''<div>'' @ [CHR 0x0A] @ ''```js'' @ [CHR 0x0A] @ ''foo'' @ [CHR 0x0A]
                  @ ''```'' @ [CHR 0x0A] @ ''</div>'')
     = Inr (''<div>'' @ [CHR 0x0A] @ ''<pre class="prettyprint lang-js">{% htmlescape %}''
            @ [CHR 0x0A] @ ''foo'' @ [CHR 0x0A] @ ''{% endhtmlescape %}</pre>'' @ [CHR 0x0A]
            @ ''</div>'')\<close>
  by code_simp


section \<open>Texts on which the rewriter finds nothing, and single matches\<close>


































section \<open>Raw regions\<close>











section \<open>Texts that the rewriter steps over\<close>



























section \<open>Code regions\<close>
























end
